theory Spec2Isabelle
  imports Complex_Main "HOL-Library.Code_Target_Numeral"
begin

section \<open>HealthyCity service: a shallow embedding of \<open>main.py\<close>\<close>

text \<open>
  The service resolves a city name to coordinates, queries a satellite imagery platform
  for two metrics and shapes JSON responses. The embedding keeps the names of
  \<open>main.py\<close>. Its conventions:
  \<^item> a Python \<open>float\<close> that a handler computes with or prints is a \<open>double\<close>: an IEEE
    binary64 value with its sign, infinities and NaN, rounded to nearest, ties to even;
  \<^item> a coordinate, which the handlers only pass on, and a pixel value, which only the
    platform computes with, is the rational number it denotes;
  \<^item> a Python \<open>str\<close> is a \<open>string\<close> whose characters are the code points below 256, so
    \<open>CHR 0xB0\<close> is the degree sign; the result of \<open>str.title\<close>, which may leave that
    range, is a list of code points;
  \<^item> an exception is a value of \<open>exn\<close>, and a function that may raise returns \<open>exn + 'a\<close>;
  \<^item> the services outside the process (the geocoding API, the imagery platform, the
    random generator) are arguments of the functions that use them.
\<close>

subsection \<open>Strings\<close>

text \<open>\<open>str.lower\<close> on the code points below 256: A-Z and the accented capitals.\<close>

definition lower_char :: "char \<Rightarrow> char" where
  "lower_char c = (let n = (of_char c :: nat) in
     if (65 \<le> n \<and> n \<le> 90) \<or> (192 \<le> n \<and> n \<le> 222 \<and> n \<noteq> 215)
     then char_of (n + 32) else c)"

definition lower :: "string \<Rightarrow> string" where
  "lower s = map lower_char s"

text \<open>
  \<open>str.title\<close>: a character after a cased one is lower-cased, any other is title-cased.
  The title-case form of a small letter is its capital; that of the micro sign
  \<open>CHR 0xB5\<close> is U+039C, that of \<open>CHR 0xFF\<close> is U+0178 and that of the sharp s
  \<open>CHR 0xDF\<close> is the two letters \<open>Ss\<close>.
\<close>

definition title_char :: "char \<Rightarrow> nat list" where
  "title_char c = (let n = (of_char c :: nat) in
     if (97 \<le> n \<and> n \<le> 122) \<or> (224 \<le> n \<and> n \<le> 254 \<and> n \<noteq> 247) then [n - 32]
     else if n = 181 then [924]
     else if n = 223 then [83, 115]
     else if n = 255 then [376]
     else [n])"

definition is_cased :: "char \<Rightarrow> bool" where
  "is_cased c = (let n = (of_char c :: nat) in
     (65 \<le> n \<and> n \<le> 90) \<or> (97 \<le> n \<and> n \<le> 122) \<or> n = 170 \<or> n = 181 \<or> n = 186
     \<or> (192 \<le> n \<and> n \<le> 214) \<or> (216 \<le> n \<and> n \<le> 246) \<or> (248 \<le> n \<and> n \<le> 255))"

fun title_from :: "bool \<Rightarrow> string \<Rightarrow> nat list" where
  "title_from previous_is_cased [] = []"
| "title_from previous_is_cased (c # cs) =
     (if previous_is_cased then [of_char (lower_char c)] else title_char c)
     @ title_from (is_cased c) cs"

definition title :: "string \<Rightarrow> nat list" where
  "title s = title_from False s"

text \<open>\<open>needle in haystack\<close> on strings.\<close>

fun contains :: "string \<Rightarrow> string \<Rightarrow> bool" where
  "contains [] needle = (needle = [])"
| "contains (c # cs) needle = (take (length needle) (c # cs) = needle \<or> contains cs needle)"

subsection \<open>Floating-point numbers\<close>

text \<open>
  A \<open>double\<close> is finite (a sign, \<open>True\<close> for negative, and a magnitude), infinite or NaN.
  \<open>round_to_double\<close> rounds a magnitude to the nearest value with 53 significant bits and
  an exponent of at least -1022 (below it the values are subnormal, spaced \<open>2^-1074\<close>),
  ties to the even significand; a result of \<open>2^1024\<close> or more is infinite.
\<close>

datatype double = Finite bool rat | Infinite bool | NaN

definition round_half_even :: "rat \<Rightarrow> int" where
  "round_half_even q = (let f = \<lfloor>q\<rfloor>; d = q - of_int f in
     if d < 1 / 2 then f else if 1 / 2 < d then f + 1 else if even f then f else f + 1)"

fun bit_length :: "nat \<Rightarrow> nat" where
  "bit_length n = (if n = 0 then 0 else Suc (bit_length (n div 2)))"

text \<open>\<open>ilog2 m\<close> is the exponent \<open>e\<close> with \<open>2^e \<le> m < 2^(e+1)\<close>, for a positive \<open>m\<close>.\<close>

definition ilog2 :: "rat \<Rightarrow> int" where
  "ilog2 m = (if 1 \<le> m then int (bit_length (nat \<lfloor>m\<rfloor>)) - 1
              else - int (bit_length (nat (\<lceil>1 / m\<rceil> - 1))))"

definition pow2 :: "int \<Rightarrow> rat" where
  "pow2 k = (if 0 \<le> k then 2 ^ nat k else 1 / 2 ^ nat (- k))"

definition round_to_double :: "bool \<Rightarrow> rat \<Rightarrow> double" where
  "round_to_double negative m =
     (if m = 0 then Finite negative 0
      else let e = max (ilog2 m) (- 1022);
               quantum = pow2 (e - 52);
               k = round_half_even (m / quantum)
           in if 1023 < e \<or> (e = 1023 \<and> k = 2 ^ 53) then Infinite negative
              else Finite negative (of_int k * quantum))"

text \<open>The double nearest to a number, as the JSON decoder and a float literal give it.\<close>

definition double_of_rat :: "rat \<Rightarrow> double" where
  "double_of_rat q = round_to_double (q < 0) \<bar>q\<bar>"

text \<open>
  Addition and multiplication: the exact result, rounded. A zero sum is negative only
  when both summands are negative zeros; the sign of a product is the exclusive or of
  the signs.
\<close>

fun fadd :: "double \<Rightarrow> double \<Rightarrow> double" where
  "fadd NaN y = NaN"
| "fadd x NaN = NaN"
| "fadd (Infinite s) (Infinite t) = (if s = t then Infinite s else NaN)"
| "fadd (Infinite s) (Finite t n) = Infinite s"
| "fadd (Finite s m) (Infinite t) = Infinite t"
| "fadd (Finite s m) (Finite t n) =
     (let exact = (if s then - m else m) + (if t then - n else n)
      in if exact = 0 then Finite (s \<and> t) 0 else round_to_double (exact < 0) \<bar>exact\<bar>)"

fun fneg :: "double \<Rightarrow> double" where
  "fneg NaN = NaN"
| "fneg (Infinite s) = Infinite (\<not> s)"
| "fneg (Finite s m) = Finite (\<not> s) m"

fun fmul :: "double \<Rightarrow> double \<Rightarrow> double" where
  "fmul NaN y = NaN"
| "fmul x NaN = NaN"
| "fmul (Infinite s) (Infinite t) = Infinite (s \<noteq> t)"
| "fmul (Infinite s) (Finite t n) = (if n = 0 then NaN else Infinite (s \<noteq> t))"
| "fmul (Finite s m) (Infinite t) = (if m = 0 then NaN else Infinite (s \<noteq> t))"
| "fmul (Finite s m) (Finite t n) = round_to_double (s \<noteq> t) (m * n)"

text \<open>
  \<open>f"{x:.nf}"\<close>: the sign, then the integer part and \<open>n\<close> decimals of the magnitude rounded
  to the nearest multiple of \<open>10^-n\<close>, ties to even; \<open>nan\<close>, \<open>inf\<close> and \<open>-inf\<close> otherwise.
\<close>

fun digits :: "nat \<Rightarrow> string" where
  "digits n = (if n < 10 then [char_of (48 + n)]
     else digits (n div 10) @ [char_of (48 + n mod 10)])"

definition zero_pad :: "nat \<Rightarrow> string \<Rightarrow> string" where
  "zero_pad n s = replicate (n - length s) (CHR ''0'') @ s"

definition format_magnitude :: "nat \<Rightarrow> rat \<Rightarrow> string" where
  "format_magnitude n m = (let k = nat (round_half_even (m * 10 ^ n)) in
     digits (k div 10 ^ n)
     @ (if n = 0 then '''' else ''.'' @ zero_pad n (digits (k mod 10 ^ n))))"

fun format_double :: "nat \<Rightarrow> double \<Rightarrow> string" where
  "format_double n NaN = ''nan''"
| "format_double n (Infinite s) = (if s then ''-inf'' else ''inf'')"
| "format_double n (Finite s m) = (if s then ''-'' else '''') @ format_magnitude n m"

subsection \<open>Exceptions, Python numbers and JSON values\<close>

datatype pykey = StrKey string | IntKey int

datatype exn =
    HTTPException (status_code: nat) (detail: string)
  | KeyError pykey
  | IndexError string
  | TypeError string
  | OverflowError string
  | EEException string
  | OtherException string

definition str_int :: "int \<Rightarrow> string" where
  "str_int i = (if i < 0 then ''-'' @ digits (nat (- i)) else digits (nat i))"

text \<open>\<open>str(e)\<close>: a \<open>KeyError\<close> prints the repr of its key, the others their message.\<close>

fun str_exn :: "exn \<Rightarrow> string" where
  "str_exn (HTTPException code d) = d"
| "str_exn (KeyError (StrKey k)) = [CHR 0x27] @ k @ [CHR 0x27]"
| "str_exn (KeyError (IntKey i)) = str_int i"
| "str_exn (IndexError msg) = msg"
| "str_exn (TypeError msg) = msg"
| "str_exn (OverflowError msg) = msg"
| "str_exn (EEException msg) = msg"
| "str_exn (OtherException msg) = msg"

text \<open>
  A number decoded from JSON is an \<open>int\<close> or a \<open>float\<close>. In mixed arithmetic and under a
  format of type \<open>f\<close> an \<open>int\<close> is converted to the nearest \<open>float\<close>, which raises
  \<open>OverflowError\<close> when that is not finite.
\<close>

datatype pynum = PyFloat double | PyInt int

definition float_of_int :: "int \<Rightarrow> exn + double" where
  "float_of_int i =
     (case round_to_double (i < 0) (of_int \<bar>i\<bar>) of
        Infinite s \<Rightarrow> Inl (OverflowError ''int too large to convert to float'')
      | d \<Rightarrow> Inr d)"

fun py_add :: "pynum \<Rightarrow> pynum \<Rightarrow> exn + pynum" where
  "py_add (PyInt a) (PyInt b) = Inr (PyInt (a + b))"
| "py_add (PyFloat a) (PyFloat b) = Inr (PyFloat (fadd a b))"
| "py_add (PyFloat a) (PyInt b) =
     (case float_of_int b of Inl ex \<Rightarrow> Inl ex | Inr d \<Rightarrow> Inr (PyFloat (fadd a d)))"
| "py_add (PyInt a) (PyFloat b) =
     (case float_of_int a of Inl ex \<Rightarrow> Inl ex | Inr d \<Rightarrow> Inr (PyFloat (fadd d b)))"

fun py_mul :: "pynum \<Rightarrow> pynum \<Rightarrow> exn + pynum" where
  "py_mul (PyInt a) (PyInt b) = Inr (PyInt (a * b))"
| "py_mul (PyFloat a) (PyFloat b) = Inr (PyFloat (fmul a b))"
| "py_mul (PyFloat a) (PyInt b) =
     (case float_of_int b of Inl ex \<Rightarrow> Inl ex | Inr d \<Rightarrow> Inr (PyFloat (fmul a d)))"
| "py_mul (PyInt a) (PyFloat b) =
     (case float_of_int a of Inl ex \<Rightarrow> Inl ex | Inr d \<Rightarrow> Inr (PyFloat (fmul d b)))"

fun py_format :: "nat \<Rightarrow> pynum \<Rightarrow> exn + string" where
  "py_format n (PyFloat d) = Inr (format_double n d)"
| "py_format n (PyInt i) =
     (case float_of_int i of Inl ex \<Rightarrow> Inl ex | Inr d \<Rightarrow> Inr (format_double n d))"

text \<open>
  The payload of a response: \<open>JStr\<close> a string, \<open>JUni\<close> a string given by its code points,
  \<open>JNum\<close> a float given by the number it denotes, \<open>JObj\<close> a dictionary in the order of
  its literal.
\<close>

datatype json =
    JStr string
  | JUni "nat list"
  | JInt int
  | JNum rat
  | JObj "(string \<times> json) list"

fun json_get :: "json \<Rightarrow> string \<Rightarrow> json option" where
  "json_get (JObj members) name = map_of members name"
| "json_get j name = None"

subsection \<open>The city resolver\<close>

text \<open>
  \<open>requests.get(url, timeout=10)\<close>, \<open>raise_for_status\<close> and \<open>json()\<close> taken together
  either raise a \<open>RequestException\<close> (connection error, timeout, error status), raise an
  exception of another kind with some message, or give the decoded body. The body is
  \<^item> a list of items, each an object with its numeric members, or something that is not
    an object, given by the message of the \<open>TypeError\<close> that subscripting it with
    \<open>"lat"\<close> raises;
  \<^item> an object, given by its member names: \<open>data[0]\<close> then raises \<open>KeyError(0)\<close>;
  \<^item> or a scalar (\<open>null\<close>, a boolean, a number, a string), given by its truth value and by
    the message of the \<open>TypeError\<close> that \<open>data[0]["lat"]\<close> raises when it is true.
\<close>

datatype geo_item =
    Item "string \<rightharpoonup> rat"
  | NotAnObject string

datatype geo_body =
    JsonArray "geo_item list"
  | JsonObject "string list"
  | JsonScalar bool string

datatype geo_reply =
    RequestException
  | Raised string
  | Body geo_body

text \<open>\<open>not data\<close>: an empty list, an empty object or a false scalar.\<close>

fun falsy :: "geo_body \<Rightarrow> bool" where
  "falsy (JsonArray items) = (items = [])"
| "falsy (JsonObject names) = (names = [])"
| "falsy (JsonScalar truth msg) = (\<not> truth)"

record env =
  OPENWEATHER_API_KEY :: "string option"
  requests_get :: "string \<Rightarrow> geo_reply"

definition known_cities :: "string \<rightharpoonup> rat \<times> rat" where
  "known_cities = [
     ''shimoga'' \<mapsto> (13.9299, 75.5681),
     ''challakere'' \<mapsto> (14.3135, 76.6534),
     ''mumbai'' \<mapsto> (19.0760, 72.8777),
     ''tokyo'' \<mapsto> (35.6762, 139.6503),
     ''london'' \<mapsto> (51.5072, -0.1276),
     ''new york'' \<mapsto> (40.7128, -74.0060)]"

text \<open>
  \<open>not OPENWEATHER_API_KEY\<close> holds when the variable is unset (\<open>None\<close>) or empty;
  \<open>api_key\<close> is the text an f-string prints for it.
\<close>

definition key_missing :: "string option \<Rightarrow> bool" where
  "key_missing k = (case k of None \<Rightarrow> True | Some s \<Rightarrow> s = [])"

definition api_key :: "string option \<Rightarrow> string" where
  "api_key k = (case k of None \<Rightarrow> ''None'' | Some s \<Rightarrow> s)"

definition geocoding_url :: "string \<Rightarrow> string \<Rightarrow> string" where
  "geocoding_url city_name key =
     ''http://api.openweathermap.org/geo/1.0/direct?q='' @ city_name
     @ ''&limit=1&appid='' @ key"

text \<open>\<open>data[0]["lat"], data[0]["lon"]\<close> for a body that is not false.\<close>

fun first_lat_lon :: "geo_body \<Rightarrow> exn + rat \<times> rat" where
  "first_lat_lon (JsonArray []) = Inl (IndexError ''list index out of range'')"
| "first_lat_lon (JsonArray (Item d # _)) =
     (case d ''lat'' of
        None \<Rightarrow> Inl (KeyError (StrKey ''lat''))
      | Some la \<Rightarrow>
          (case d ''lon'' of
             None \<Rightarrow> Inl (KeyError (StrKey ''lon''))
           | Some lo \<Rightarrow> Inr (la, lo)))"
| "first_lat_lon (JsonArray (NotAnObject msg # _)) = Inl (TypeError msg)"
| "first_lat_lon (JsonObject names) = Inl (KeyError (IntKey 0))"
| "first_lat_lon (JsonScalar truth msg) = Inl (TypeError msg)"

text \<open>
  The result is paired with the list of URLs requested over the network, in order, so
  that a lookup answered from the table is seen to make no call. Only a
  \<open>RequestException\<close> is caught; every other exception leaves the function as it is.
\<close>

definition get_city_coords :: "env \<Rightarrow> string \<Rightarrow> (exn + rat \<times> rat) \<times> string list" where
  "get_city_coords e city_name =
     (let city_lower = lower city_name in
      case known_cities city_lower of
        Some coords \<Rightarrow> (Inr coords, [])
      | None \<Rightarrow>
          if key_missing (OPENWEATHER_API_KEY e)
          then (Inl (HTTPException 500 ''OpenWeatherMap API key is not configured.''), [])
          else
            let url = geocoding_url city_name (api_key (OPENWEATHER_API_KEY e)) in
            (case requests_get e url of
               RequestException \<Rightarrow>
                 Inl (HTTPException 503 ''Geocoding service is unavailable.'')
             | Raised msg \<Rightarrow> Inl (OtherException msg)
             | Body data \<Rightarrow>
                 if falsy data
                 then Inl (HTTPException 404
                   (''City '' @ [CHR 0x27] @ city_name @ [CHR 0x27] @ '' not found.''))
                 else first_lat_lon data,
             [url]))"

subsection \<open>The imagery platform\<close>

text \<open>
  \<open>ee.Geometry.Point(lon, lat).buffer(5000)\<close> is a disc. An image of a catalogue carries
  its footprint (which regions it intersects), its numeric properties, its acquisition
  time \<open>system:time_start\<close> in milliseconds since the epoch, and for each band the values
  of its unmasked pixels inside a region at the sampling scale of 30 m. An image
  collection is the list of its images.
\<close>

record region =
  centre_lon :: rat
  centre_lat :: rat
  radius :: rat

definition Point_buffer :: "rat \<Rightarrow> rat \<Rightarrow> rat \<Rightarrow> region" where
  "Point_buffer lon lat r = \<lparr>centre_lon = lon, centre_lat = lat, radius = r\<rparr>"

record ee_image =
  footprint :: "region \<Rightarrow> bool"
  properties :: "string \<rightharpoonup> rat"
  time_start :: int
  pixels :: "string \<Rightarrow> region \<Rightarrow> rat list"

text \<open>
  The platform: the catalogue; an error raised while the geometry and the collection are
  built (lines 72-79 and 111-123; for instance the client was never initialised); an
  error raised by \<open>getInfo()\<close>; the message of the error that \<open>getInfo()\<close> raises when the
  computation selects a band of the first image of an empty collection; and the number
  that \<open>getInfo()\<close> reports for the vegetation chain \<open>median()\<close>,
  \<open>normalizedDifference(['B8', 'B4'])\<close>, \<open>reduceRegion(mean)\<close>, whose pixel arithmetic the
  source leaves to the platform.
\<close>

record platform =
  catalog :: "string \<Rightarrow> ee_image list"
  build_error :: "string option"
  getInfo_error :: "string option"
  null_image_error :: string
  median_ndvi_mean :: "ee_image list \<Rightarrow> region \<Rightarrow> pynum option"

text \<open>
  The client library computes nothing by itself: each call of the chain returns an
  object that stands for a value the platform will compute, and only \<open>getInfo()\<close> asks for
  it. \<open>client v\<close> is what such a call returns to Python: an object, never \<open>None\<close>,
  whatever the value \<open>v\<close> it stands for.
\<close>

datatype 'a computed = Computed (server_value: 'a)

definition client :: "'a \<Rightarrow> 'a computed option" where
  "client v = Some (Computed v)"

definition filterBounds :: "region \<Rightarrow> ee_image list \<Rightarrow> ee_image list" where
  "filterBounds area xs = filter (\<lambda>i. footprint i area) xs"

text \<open>\<open>ee.Filter.lt(name, bound)\<close>: the property is present and below the bound.\<close>

definition filter_lt :: "string \<Rightarrow> rat \<Rightarrow> ee_image list \<Rightarrow> ee_image list" where
  "filter_lt name bound xs =
     filter (\<lambda>i. case properties i name of None \<Rightarrow> False | Some v \<Rightarrow> v < bound) xs"

text \<open>
  \<open>ee.Filter.date(start, end)\<close> keeps the images acquired from \<open>start\<close> (inclusive) to
  \<open>end\<close> (exclusive); a date \<open>YYYY-MM-DD\<close> is midnight UTC of that day.
\<close>

definition parse_nat :: "string \<Rightarrow> nat" where
  "parse_nat s = foldl (\<lambda>a c. 10 * a + (of_char c - 48)) 0 s"

definition days_from_civil :: "int \<Rightarrow> int \<Rightarrow> int \<Rightarrow> int" where
  "days_from_civil y m d =
     (let y' = (if m \<le> 2 then y - 1 else y);
          era = y' div 400;
          yoe = y' - era * 400;
          doy = (153 * (if 2 < m then m - 3 else m + 9) + 2) div 5 + d - 1;
          doe = yoe * 365 + yoe div 4 - yoe div 100 + doy
      in era * 146097 + doe - 719468)"

definition date_millis :: "string \<Rightarrow> int" where
  "date_millis s =
     days_from_civil (int (parse_nat (take 4 s))) (int (parse_nat (take 2 (drop 5 s))))
       (int (parse_nat (take 2 (drop 8 s)))) * 86400000"

definition filter_date :: "string \<Rightarrow> string \<Rightarrow> ee_image list \<Rightarrow> ee_image list" where
  "filter_date start stop xs =
     filter (\<lambda>i. date_millis start \<le> time_start i \<and> time_start i < date_millis stop) xs"

text \<open>
  \<open>.sort(property, ascending)\<close> and \<open>.first()\<close>, as the platform evaluates them: the
  first element of an empty collection is null (\<open>None\<close>).
\<close>

definition ee_sort :: "(ee_image \<Rightarrow> int) \<Rightarrow> bool \<Rightarrow> ee_image list \<Rightarrow> ee_image list" where
  "ee_sort key ascending xs = (if ascending then sort_key key xs else rev (sort_key key xs))"

definition ee_first :: "ee_image list \<Rightarrow> ee_image option" where
  "ee_first xs = (case xs of [] \<Rightarrow> None | x # _ \<Rightarrow> Some x)"

text \<open>A band is its name and its pixel values over a region; arithmetic is per pixel.\<close>

type_synonym band = "string \<times> (region \<Rightarrow> rat list)"

definition select :: "ee_image \<Rightarrow> string \<Rightarrow> band" where
  "select img name = (name, pixels img name)"

definition multiply :: "band \<Rightarrow> rat \<Rightarrow> band" where
  "multiply b k = (fst b, \<lambda>area. map (\<lambda>x. x * k) (snd b area))"

definition add :: "band \<Rightarrow> rat \<Rightarrow> band" where
  "add b k = (fst b, \<lambda>area. map (\<lambda>x. x + k) (snd b area))"

definition subtract :: "band \<Rightarrow> rat \<Rightarrow> band" where
  "subtract b k = (fst b, \<lambda>area. map (\<lambda>x. x - k) (snd b area))"

definition rename :: "band \<Rightarrow> string \<Rightarrow> band" where
  "rename b name = (name, snd b)"

text \<open>
  \<open>reduceRegion(reducer=ee.Reducer.mean(), ...)\<close> gives a dictionary from the band name to
  the mean of the pixels, or to \<open>None\<close> when the region holds no unmasked pixel;
  \<open>getInfo()\<close> decodes its numbers to floats; \<open>stats.get(name)\<close> is \<open>None\<close> for a missing
  key and for a \<open>None\<close> entry.
\<close>

definition mean :: "rat list \<Rightarrow> rat option" where
  "mean xs = (if xs = [] then None else Some (sum_list xs / of_nat (length xs)))"

definition reduceRegion :: "band \<Rightarrow> region \<Rightarrow> (string \<rightharpoonup> rat option)" where
  "reduceRegion b area = [fst b \<mapsto> mean (snd b area)]"

definition getInfo :: "(string \<rightharpoonup> rat option) \<Rightarrow> (string \<rightharpoonup> pynum option)" where
  "getInfo stats = (\<lambda>name. map_option (map_option (\<lambda>q. PyFloat (double_of_rat q))) (stats name))"

definition stats_get :: "(string \<rightharpoonup> pynum option) \<Rightarrow> string \<Rightarrow> pynum option" where
  "stats_get stats name = (case stats name of None \<Rightarrow> None | Some v \<Rightarrow> v)"

subsection \<open>The satellite endpoints\<close>

text \<open>
  Both handlers run their body under \<open>except HTTPException as e: raise e\<close> and
  \<open>except Exception as e: raise HTTPException(500, ...)\<close>.
\<close>

definition on_exception :: "exn \<Rightarrow> exn" where
  "on_exception ex =
     (case ex of
        HTTPException code d \<Rightarrow> ex
      | _ \<Rightarrow> HTTPException 500 (''An Earth Engine error occurred: '' @ str_exn ex))"

definition location :: "rat \<Rightarrow> rat \<Rightarrow> json" where
  "location lat lon = JObj [(''lat'', JNum lat), (''lon'', JNum lon)]"

definition greencover_collection :: "platform \<Rightarrow> region \<Rightarrow> ee_image list" where
  "greencover_collection pf area =
     filter_date ''2023-01-01'' ''2023-12-31''
       (filter_lt ''CLOUDY_PIXEL_PERCENTAGE'' 20
         (filterBounds area (catalog pf ''COPERNICUS/S2_SR_HARMONIZED'')))"

text \<open>
  The response of the vegetation handler for an index \<open>avg_ndvi\<close>: the percentage
  \<open>(avg_ndvi + 1) * 50\<close> in Python arithmetic, then the dictionary, whose two f-strings
  may raise.
\<close>

definition green_cover_response :: "string \<Rightarrow> rat \<Rightarrow> rat \<Rightarrow> pynum \<Rightarrow> exn + json" where
  "green_cover_response city lat lon avg_ndvi =
     (case py_add avg_ndvi (PyInt 1) of
        Inl ex \<Rightarrow> Inl ex
      | Inr s \<Rightarrow>
          (case py_mul s (PyInt 50) of
             Inl ex \<Rightarrow> Inl ex
           | Inr green_cover_percentage \<Rightarrow>
               (case py_format 2 green_cover_percentage of
                  Inl ex \<Rightarrow> Inl ex
                | Inr coverage \<Rightarrow>
                    (case py_format 4 avg_ndvi of
                       Inl ex \<Rightarrow> Inl ex
                     | Inr ndvi \<Rightarrow>
                         Inr (JObj [
                           (''city'', JUni (title city)),
                           (''location'', location lat lon),
                           (''avg_coverage'', JStr (coverage @ ''%'')),
                           (''avg_ndvi'', JStr ndvi),
                           (''data_source'', JStr ''Sentinel-2 Satellite'')])))))"

definition get_green_cover_real :: "env \<Rightarrow> platform \<Rightarrow> string \<Rightarrow> exn + json" where
  "get_green_cover_real e pf city =
     (case fst (get_city_coords e city) of
        Inl ex \<Rightarrow> Inl (on_exception ex)
      | Inr (lat, lon) \<Rightarrow>
          (case build_error pf of
             Some msg \<Rightarrow> Inl (on_exception (EEException msg))
           | None \<Rightarrow>
               let area_of_interest = Point_buffer lon lat 5000;
                   collection = greencover_collection pf area_of_interest
               in (case getInfo_error pf of
                     Some msg \<Rightarrow> Inl (on_exception (EEException msg))
                   | None \<Rightarrow>
                       let stats = [''NDVI'' \<mapsto> median_ndvi_mean pf collection area_of_interest]
                       in (case stats_get stats ''NDVI'' of
                             None \<Rightarrow>
                               Inl (on_exception (HTTPException 404
                                 ''Could not calculate NDVI for this area.''))
                           | Some avg_ndvi \<Rightarrow>
                               (case green_cover_response city lat lon avg_ndvi of
                                  Inl ex \<Rightarrow> Inl (on_exception ex)
                                | Inr response \<Rightarrow> Inr response)))))"

definition scale_thermal :: "ee_image \<Rightarrow> band" where
  "scale_thermal img =
     (let thermal = add (multiply (select img ''ST_B10'') 0.00341802) 149.0
      in subtract thermal 273.15)"

definition heatmap_collection :: "platform \<Rightarrow> region \<Rightarrow> ee_image list" where
  "heatmap_collection pf area =
     filter_date ''2023-01-01'' ''2023-12-31''
       (filter_lt ''CLOUD_COVER'' 20
         (filterBounds area (catalog pf ''LANDSAT/LC09/C02/T1_L2'')))"

text \<open>
  The image that the chain of lines 118-123 selects on the platform: the most recent of
  the filtered collection, null when the collection is empty.
\<close>

definition latest_image :: "platform \<Rightarrow> region \<Rightarrow> ee_image option" where
  "latest_image pf area = ee_first (ee_sort time_start False (heatmap_collection pf area))"

text \<open>
  The handler holds the client's object for that image. The guard
  \<open>if latest_image is None\<close> of line 125 tests the object, so its branch is never taken;
  an empty collection shows only when \<open>getInfo()\<close> evaluates the chain, as an error of
  the platform.
\<close>

definition get_heat_map_real :: "env \<Rightarrow> platform \<Rightarrow> string \<Rightarrow> exn + json" where
  "get_heat_map_real e pf city =
     (case fst (get_city_coords e city) of
        Inl ex \<Rightarrow> Inl (on_exception ex)
      | Inr (lat, lon) \<Rightarrow>
          (case build_error pf of
             Some msg \<Rightarrow> Inl (on_exception (EEException msg))
           | None \<Rightarrow>
               let area_of_interest = Point_buffer lon lat 5000
               in (case client (latest_image pf area_of_interest) of
                     None \<Rightarrow>
                       Inl (on_exception (HTTPException 404
                         ''No valid satellite imagery found for the date range.''))
                   | Some latest \<Rightarrow>
                       (case getInfo_error pf of
                          Some msg \<Rightarrow> Inl (on_exception (EEException msg))
                        | None \<Rightarrow>
                            (case server_value latest of
                               None \<Rightarrow> Inl (on_exception (EEException (null_image_error pf)))
                             | Some img \<Rightarrow>
                                 let lst_celsius = rename (scale_thermal img) ''LST_Celsius'';
                                     stats = getInfo (reduceRegion lst_celsius area_of_interest)
                                 in (case stats_get stats ''LST_Celsius'' of
                                       None \<Rightarrow>
                                         Inl (on_exception (HTTPException 404
                                           ''Could not calculate temperature.''))
                                     | Some avg_temp \<Rightarrow>
                                         (case py_format 2 avg_temp of
                                            Inl ex \<Rightarrow> Inl (on_exception ex)
                                          | Inr temp \<Rightarrow>
                                              Inr (JObj [
                                                (''city'', JUni (title city)),
                                                (''location'', location lat lon),
                                                (''avg_temp'',
                                                   JStr (temp @ [CHR 0xB0, CHR ''C''])),
                                                (''data_source'',
                                                   JStr ''Landsat 9 Satellite'')]))))))))"

subsection \<open>The simulated endpoints\<close>

text \<open>
  The handlers of this group share the process-wide generator of the \<open>random\<close> module.
  Its state is a sequence of raw draws and a position; every call of \<open>random\<close> consumes
  one draw and maps it into its range, and a handler returns the state it leaves
  behind. \<open>random.uniform(a, b)\<close> is \<open>a + (b - a) * random()\<close> in floats, with
  \<open>random()\<close> a multiple of \<open>2^-53\<close> below 1. Values of a dictionary literal are
  evaluated from left to right.
\<close>

datatype rng = Rng (source: "nat \<Rightarrow> nat") (pos: nat)

definition next_raw :: "rng \<Rightarrow> nat \<times> rng" where
  "next_raw g = (source g (pos g), Rng (source g) (Suc (pos g)))"

definition randint :: "int \<Rightarrow> int \<Rightarrow> rng \<Rightarrow> int \<times> rng" where
  "randint a b g = (let (r, g') = next_raw g in (a + int (r mod nat (b - a + 1)), g'))"

definition uniform :: "double \<Rightarrow> double \<Rightarrow> rng \<Rightarrow> double \<times> rng" where
  "uniform a b g =
     (let (r, g') = next_raw g
      in (fadd a (fmul (fadd b (fneg a)) (Finite False (of_nat (r mod 2 ^ 53) / 2 ^ 53))), g'))"

definition choice :: "'a \<Rightarrow> 'a list \<Rightarrow> rng \<Rightarrow> 'a \<times> rng" where
  "choice x xs g = (let (r, g') = next_raw g in ((x # xs) ! (r mod Suc (length xs)), g'))"

definition get_city_overview :: "env \<Rightarrow> rng \<Rightarrow> string \<Rightarrow> (exn + json) \<times> rng" where
  "get_city_overview e g city =
     (case fst (get_city_coords e city) of
        Inl ex \<Rightarrow> (Inl ex, g)
      | Inr coords \<Rightarrow>
          let (temperature, g1) = uniform (Finite False 25) (Finite False 32) g;
              (green_cover, g2) = randint 40 65 g1;
              (flood_risk, g3) = randint 5 25 g2;
              (aqi, g4) = randint 40 90 g3;
              (risk_level, g5) = choice ''Low Risk'' [''Medium Risk''] g4
          in (Inr (JObj [
                (''city'', JUni (title city)),
                (''country'', JStr ''Global''),
                (''temperature'', JStr (format_double 1 temperature @ [CHR 0xB0, CHR ''C''])),
                (''green_cover'', JStr (str_int green_cover @ ''%'')),
                (''flood_risk'', JStr (str_int flood_risk @ ''/100'')),
                (''aqi'', JInt aqi),
                (''risk_level'', JStr risk_level)]), g5))"

definition get_flood_risk :: "env \<Rightarrow> rng \<Rightarrow> string \<Rightarrow> (exn + json) \<times> rng" where
  "get_flood_risk e g city =
     (case fst (get_city_coords e city) of
        Inl ex \<Rightarrow> (Inl ex, g)
      | Inr (lat, lon) \<Rightarrow>
          let (risk_score, g1) = randint 10 40 g;
              (high_risk_zones, g2) = randint 1 10 g1;
              (avg_elevation, g3) = randint 40 60 g2
          in (Inr (JObj [
                (''city'', JUni (title city)),
                (''location'', location lat lon),
                (''risk_score'', JStr (str_int risk_score @ ''/100'')),
                (''high_risk_zones'', JInt high_risk_zones),
                (''avg_elevation'', JStr (str_int avg_elevation @ ''m''))]), g3))"

definition get_air_quality :: "env \<Rightarrow> rng \<Rightarrow> string \<Rightarrow> (exn + json) \<times> rng" where
  "get_air_quality e g city =
     (case fst (get_city_coords e city) of
        Inl ex \<Rightarrow> (Inl ex, g)
      | Inr (lat, lon) \<Rightarrow>
          let (avg_aqi, g1) = randint 30 150 g;
              (unhealthy_sensors, g2) = randint 0 5 g1;
              (main_pollutant, g3) = choice ''PM2.5'' [''O3'', ''NO2''] g2
          in (Inr (JObj [
                (''city'', JUni (title city)),
                (''location'', location lat lon),
                (''avg_aqi'', JInt avg_aqi),
                (''unhealthy_sensors'', JInt unhealthy_sensors),
                (''main_pollutant'', JStr main_pollutant)]), g3))"

definition get_report_card :: "env \<Rightarrow> rng \<Rightarrow> string \<Rightarrow> (exn + json) \<times> rng" where
  "get_report_card e g city =
     (case fst (get_city_coords e city) of
        Inl ex \<Rightarrow> (Inl ex, g)
      | Inr (lat, lon) \<Rightarrow>
          let (overall_score, g1) = randint 60 85 g
          in (Inr (JObj [
                (''city'', JUni (title city)),
                (''location'', location lat lon),
                (''overall_score'', JInt overall_score),
                (''summary'', JStr ''This is a simulated summary.''),
                (''grades'', JObj [
                   (''Air Quality'', JObj [(''grade'', JStr ''C+'')]),
                   (''Green Cover'', JObj [(''grade'', JStr ''A-'')])])]), g1))"

text \<open>\<open>get_simulation\<close> reads none of its parameters and makes no call.\<close>

definition get_simulation :: "rng \<Rightarrow> string \<Rightarrow> string \<Rightarrow> string \<Rightarrow> (exn + json) \<times> rng" where
  "get_simulation g city intervention scale =
     (Inr (JObj [
        (''impact'', JObj [
           (''temperature'', JObj [
              (''current'', JStr (''25.1'' @ [CHR 0xB0, CHR ''C''])),
              (''change'', JStr (''-2.5'' @ [CHR 0xB0, CHR ''C'']))]),
           (''aqi'', JObj [(''current'', JInt 83), (''change'', JInt (- 20))])]),
        (''benefits'', JObj [
           (''co2_absorbed'', JStr ''150 Tons/year''),
           (''investment'', JStr ''$500K'')])]), g)"

section \<open>Concrete inputs\<close>

text \<open>
  A geocoding service that is down, one that knows no city, one that answers with an
  error object, and no API key at all.
\<close>

definition down_env :: env where
  "down_env = \<lparr>OPENWEATHER_API_KEY = Some ''secret'',
                requests_get = (\<lambda>url. RequestException)\<rparr>"

definition empty_env :: env where
  "empty_env = \<lparr>OPENWEATHER_API_KEY = Some ''secret'',
                 requests_get = (\<lambda>url. Body (JsonArray []))\<rparr>"

definition object_env :: env where
  "object_env = \<lparr>OPENWEATHER_API_KEY = Some ''secret'',
                  requests_get = (\<lambda>url. Body (JsonObject [''cod'', ''message'']))\<rparr>"

definition keyless_env :: env where
  "keyless_env = \<lparr>OPENWEATHER_API_KEY = None,
                   requests_get = (\<lambda>url. Body (JsonArray []))\<rparr>"

text \<open>
  A platform whose Landsat catalogue holds four images over every region (two of them
  inside the window and clear enough), whose Sentinel-2 catalogue holds two (one of them
  at the cloud threshold) and whose vegetation chain gives an index of 0; a platform
  with the same catalogue whose vegetation chain gives the float nearest to -0.0999;
  and a platform with an empty catalogue whose vegetation chain gives no value.
\<close>

definition tokyo_area :: region where
  "tokyo_area = Point_buffer 139.6503 35.6762 5000"

definition landsat_march :: ee_image where
  "landsat_march = \<lparr>footprint = (\<lambda>area. True), properties = [''CLOUD_COVER'' \<mapsto> 5],
     time_start = 1678000000000,
     pixels = (\<lambda>name area. if name = ''ST_B10'' then [100] else [])\<rparr>"

definition landsat_july :: ee_image where
  "landsat_july = \<lparr>footprint = (\<lambda>area. True), properties = [''CLOUD_COVER'' \<mapsto> 12],
     time_start = 1689000000000,
     pixels = (\<lambda>name area. if name = ''ST_B10'' then [44000, 45000] else [])\<rparr>"

definition landsat_cloudy :: ee_image where
  "landsat_cloudy = \<lparr>footprint = (\<lambda>area. True), properties = [''CLOUD_COVER'' \<mapsto> 60],
     time_start = 1700000000000,
     pixels = (\<lambda>name area. if name = ''ST_B10'' then [30000] else [])\<rparr>"

definition landsat_2024 :: ee_image where
  "landsat_2024 = \<lparr>footprint = (\<lambda>area. True), properties = [''CLOUD_COVER'' \<mapsto> 1],
     time_start = 1710000000000,
     pixels = (\<lambda>name area. if name = ''ST_B10'' then [30000] else [])\<rparr>"

definition sentinel_may :: ee_image where
  "sentinel_may = \<lparr>footprint = (\<lambda>area. True),
     properties = [''CLOUDY_PIXEL_PERCENTAGE'' \<mapsto> 3],
     time_start = 1684000000000, pixels = (\<lambda>name area. [])\<rparr>"

definition sentinel_hazy :: ee_image where
  "sentinel_hazy = \<lparr>footprint = (\<lambda>area. True),
     properties = [''CLOUDY_PIXEL_PERCENTAGE'' \<mapsto> 20],
     time_start = 1684000000000, pixels = (\<lambda>name area. [])\<rparr>"

definition demo_catalog :: "string \<Rightarrow> ee_image list" where
  "demo_catalog name =
     (if name = ''LANDSAT/LC09/C02/T1_L2''
      then [landsat_march, landsat_cloudy, landsat_july, landsat_2024]
      else if name = ''COPERNICUS/S2_SR_HARMONIZED'' then [sentinel_may, sentinel_hazy]
      else [])"

definition demo_platform :: platform where
  "demo_platform = \<lparr>catalog = demo_catalog, build_error = None, getInfo_error = None,
     null_image_error = ''Image.select: Parameter input is required.'',
     median_ndvi_mean = (\<lambda>xs area. Some (PyFloat (Finite False 0)))\<rparr>"

definition sparse_platform :: platform where
  "sparse_platform = \<lparr>catalog = demo_catalog, build_error = None, getInfo_error = None,
     null_image_error = ''Image.select: Parameter input is required.'',
     median_ndvi_mean = (\<lambda>xs area. Some (PyFloat (double_of_rat (- 0.0999))))\<rparr>"

definition bare_platform :: platform where
  "bare_platform = \<lparr>catalog = (\<lambda>name. []), build_error = None, getInfo_error = None,
     null_image_error = ''Image.select: Parameter input is required.'',
     median_ndvi_mean = (\<lambda>xs area. None)\<rparr>"

text \<open>
  A platform whose only image has every pixel masked, one whose \<open>getInfo()\<close> fails, and a
  client that was never initialised.
\<close>

definition landsat_masked :: ee_image where
  "landsat_masked = \<lparr>footprint = (\<lambda>area. True), properties = [''CLOUD_COVER'' \<mapsto> 2],
     time_start = 1685000000000, pixels = (\<lambda>name area. [])\<rparr>"

definition masked_platform :: platform where
  "masked_platform = \<lparr>catalog = (\<lambda>name. [landsat_masked]), build_error = None,
     getInfo_error = None,
     null_image_error = ''Image.select: Parameter input is required.'',
     median_ndvi_mean = (\<lambda>xs area. None)\<rparr>"

definition failing_platform :: platform where
  "failing_platform = \<lparr>catalog = (\<lambda>name. [landsat_masked]), build_error = None,
     getInfo_error = Some ''Computation timed out.'',
     null_image_error = ''Image.select: Parameter input is required.'',
     median_ndvi_mean = (\<lambda>xs area. None)\<rparr>"

definition uninitialised_platform :: platform where
  "uninitialised_platform = \<lparr>catalog = (\<lambda>name. []),
     build_error = Some ''Earth Engine client library not initialized.'',
     getInfo_error = None,
     null_image_error = ''Image.select: Parameter input is required.'',
     median_ndvi_mean = (\<lambda>xs area. None)\<rparr>"

text \<open>A state of the random generator.\<close>

definition rng_a :: rng where
  "rng_a = Rng (\<lambda>n. 7 * n + 3) 0"

section \<open>Properties\<close>

subsection \<open>The city resolver\<close>

lemma known_cities_tokyo: "known_cities ''tokyo'' = Some (35.6762, 139.6503)"
  by (simp add: known_cities_def)

text \<open>
  Claim C3. A city name whose lower-cased form is a key of the static table resolves to
  the pair of the table, whatever the environment, and no URL is requested; the result
  depends on the name through its lower-cased form only. Any spelling of Tokyo resolves
  to (35.6762, 139.6503).
\<close>

theorem known_city_lookup:
  "(\<forall>coords. known_cities (lower city) = Some coords \<longrightarrow>
      get_city_coords e city = (Inr coords, []))
   \<and> (lower city = ''tokyo'' \<longrightarrow> get_city_coords e city = (Inr (35.6762, 139.6503), []))"
  by (simp add: get_city_coords_def known_cities_tokyo)

theorem known_city_lookup_witness:
  "known_cities (lower ''London'') = Some (51.5072, - 0.1276)
   \<and> get_city_coords down_env ''London'' = (Inr (51.5072, - 0.1276), [])
   \<and> lower ''tOKYo'' = ''tokyo''
   \<and> get_city_coords down_env ''tOKYo'' = (Inr (35.6762, 139.6503), [])"
proof -
  have h1: "known_cities (lower ''London'') = Some (51.5072, - 0.1276)" by code_simp
  have h2: "lower ''tOKYo'' = ''tokyo''" by code_simp
  from known_city_lookup [of "''London''" down_env] h1
  have c1: "get_city_coords down_env ''London'' = (Inr (51.5072, - 0.1276), [])" by blast
  from known_city_lookup [of "''tOKYo''" down_env] h2
  have c2: "get_city_coords down_env ''tOKYo'' = (Inr (35.6762, 139.6503), [])" by blast
  from h1 h2 c1 c2 show ?thesis by blast
qed

text \<open>
  The resolver has a failure that is neither 404 nor 503: an unknown city with no API
  key configured is answered with HTTP 500, before any call is made.
\<close>

theorem resolver_failures_counterexample:
  "known_cities (lower ''Atlantis'') = None
   \<and> get_city_coords keyless_env ''Atlantis''
       = (Inl (HTTPException 500 ''OpenWeatherMap API key is not configured.''), [])"
  by code_simp

text \<open>
  Claim C4, as amended. For a city name that is not in the table: without an API key
  the resolver fails with HTTP 500 and requests no URL; with a key it requests the
  geocoding URL once, and then it fails with 404 exactly when the decoded body is empty
  (an empty list or another false value), with 503 exactly when the call raises a
  request exception (service unavailable, error status, timeout), and it returns the
  coordinates when the body is a list whose first item is an object with \<open>lat\<close> and
  \<open>lon\<close>. Its other failures are the \<open>KeyError\<close> or \<open>TypeError\<close> of a body of another
  shape and an exception of another kind raised by the call, none of which it catches.
\<close>

theorem resolver_failures:
  assumes "known_cities (lower city) = None"
    and "requests_get e (geocoding_url city (api_key (OPENWEATHER_API_KEY e))) = reply"
  shows "(key_missing (OPENWEATHER_API_KEY e) \<longrightarrow>
            get_city_coords e city
              = (Inl (HTTPException 500 ''OpenWeatherMap API key is not configured.''), []))
   \<and> (\<not> key_missing (OPENWEATHER_API_KEY e) \<longrightarrow>
        snd (get_city_coords e city)
          = [geocoding_url city (api_key (OPENWEATHER_API_KEY e))]
      \<and> ((\<exists>d. fst (get_city_coords e city) = Inl (HTTPException 404 d))
            \<longleftrightarrow> (\<exists>data. reply = Body data \<and> falsy data))
      \<and> ((\<exists>data. reply = Body data \<and> falsy data) \<longrightarrow> fst (get_city_coords e city)
            = Inl (HTTPException 404 (''City '' @ [CHR 0x27] @ city @ [CHR 0x27] @ '' not found.'')))
      \<and> (fst (get_city_coords e city)
            = Inl (HTTPException 503 ''Geocoding service is unavailable.'')
          \<longleftrightarrow> reply = RequestException)
      \<and> (\<forall>d items la lo. reply = Body (JsonArray (Item d # items))
            \<and> d ''lat'' = Some la \<and> d ''lon'' = Some lo
            \<longrightarrow> fst (get_city_coords e city) = Inr (la, lo))
      \<and> (\<forall>ex. fst (get_city_coords e city) = Inl ex \<longrightarrow>
            (\<exists>d. ex = HTTPException 404 d) \<or> (\<exists>d. ex = HTTPException 503 d)
            \<or> (\<exists>k. ex = KeyError k) \<or> (\<exists>msg. ex = TypeError msg)
            \<or> (\<exists>msg. ex = OtherException msg \<and> reply = Raised msg)))"
proof (intro conjI impI)
  assume "key_missing (OPENWEATHER_API_KEY e)"
  then show "get_city_coords e city
      = (Inl (HTTPException 500 ''OpenWeatherMap API key is not configured.''), [])"
    using assms(1) by (simp add: get_city_coords_def)
next
  assume k: "\<not> key_missing (OPENWEATHER_API_KEY e)"
  have r: "get_city_coords e city =
      (case reply of
         RequestException \<Rightarrow> Inl (HTTPException 503 ''Geocoding service is unavailable.'')
       | Raised msg \<Rightarrow> Inl (OtherException msg)
       | Body data \<Rightarrow>
           if falsy data
           then Inl (HTTPException 404 (''City '' @ [CHR 0x27] @ city @ [CHR 0x27] @ '' not found.''))
           else first_lat_lon data,
       [geocoding_url city (api_key (OPENWEATHER_API_KEY e))])"
    using assms k by (simp add: get_city_coords_def Let_def)
  have f: "\<And>data ex. \<not> falsy data \<Longrightarrow> first_lat_lon data = Inl ex \<Longrightarrow>
      (\<exists>k. ex = KeyError k) \<or> (\<exists>msg. ex = TypeError msg)"
    subgoal for data ex
      by (cases data rule: first_lat_lon.cases) (auto split: option.splits)
    done
  show "snd (get_city_coords e city) = [geocoding_url city (api_key (OPENWEATHER_API_KEY e))]"
    by (simp add: r)
  show "(\<exists>d. fst (get_city_coords e city) = Inl (HTTPException 404 d))
            \<longleftrightarrow> (\<exists>data. reply = Body data \<and> falsy data)"
    using f by (cases reply) (auto simp: r)
  show "fst (get_city_coords e city)
            = Inl (HTTPException 503 ''Geocoding service is unavailable.'')
          \<longleftrightarrow> reply = RequestException"
    using f by (cases reply) (auto simp: r)
  show "\<forall>d items la lo. reply = Body (JsonArray (Item d # items))
            \<and> d ''lat'' = Some la \<and> d ''lon'' = Some lo
            \<longrightarrow> fst (get_city_coords e city) = Inr (la, lo)"
    by (auto simp: r)
  show "\<forall>ex. fst (get_city_coords e city) = Inl ex \<longrightarrow>
            (\<exists>d. ex = HTTPException 404 d) \<or> (\<exists>d. ex = HTTPException 503 d)
            \<or> (\<exists>k. ex = KeyError k) \<or> (\<exists>msg. ex = TypeError msg)
            \<or> (\<exists>msg. ex = OtherException msg \<and> reply = Raised msg)"
    using f by (cases reply) (auto simp: r split: if_splits)
  assume "\<exists>data. reply = Body data \<and> falsy data"
  then show "fst (get_city_coords e city)
            = Inl (HTTPException 404 (''City '' @ [CHR 0x27] @ city @ [CHR 0x27] @ '' not found.''))"
    by (auto simp: r)
qed

theorem resolver_failures_witness:
  "known_cities (lower ''Atlantis'') = None
   \<and> key_missing (OPENWEATHER_API_KEY keyless_env)
   \<and> get_city_coords keyless_env ''Atlantis''
       = (Inl (HTTPException 500 ''OpenWeatherMap API key is not configured.''), [])
   \<and> \<not> key_missing (OPENWEATHER_API_KEY empty_env)
   \<and> fst (get_city_coords empty_env ''Atlantis'')
       = Inl (HTTPException 404 (''City '' @ [CHR 0x27] @ ''Atlantis'' @ [CHR 0x27] @ '' not found.''))
   \<and> \<not> key_missing (OPENWEATHER_API_KEY down_env)
   \<and> fst (get_city_coords down_env ''Atlantis'')
       = Inl (HTTPException 503 ''Geocoding service is unavailable.'')
   \<and> \<not> key_missing (OPENWEATHER_API_KEY object_env)
   \<and> fst (get_city_coords object_env ''Atlantis'') = Inl (KeyError (IntKey 0))"
proof -
  have u: "known_cities (lower ''Atlantis'') = None" by code_simp
  have k0: "key_missing (OPENWEATHER_API_KEY keyless_env)" by code_simp
  have k1: "\<not> key_missing (OPENWEATHER_API_KEY empty_env)" by code_simp
  have k2: "\<not> key_missing (OPENWEATHER_API_KEY down_env)" by code_simp
  have k3: "\<not> key_missing (OPENWEATHER_API_KEY object_env)" by code_simp
  have r1: "requests_get empty_env
      (geocoding_url ''Atlantis'' (api_key (OPENWEATHER_API_KEY empty_env)))
        = Body (JsonArray [])"
    by (simp add: empty_env_def)
  have r2: "requests_get down_env
      (geocoding_url ''Atlantis'' (api_key (OPENWEATHER_API_KEY down_env))) = RequestException"
    by (simp add: down_env_def)
  have f1: "falsy (JsonArray [])" by simp
  from resolver_failures [OF u refl, of keyless_env] k0
  have c0: "get_city_coords keyless_env ''Atlantis''
       = (Inl (HTTPException 500 ''OpenWeatherMap API key is not configured.''), [])" by blast
  from resolver_failures [OF u r1] k1 f1
  have c1: "fst (get_city_coords empty_env ''Atlantis'')
       = Inl (HTTPException 404 (''City '' @ [CHR 0x27] @ ''Atlantis'' @ [CHR 0x27] @ '' not found.''))"
    by blast
  from resolver_failures [OF u r2] k2
  have c2: "fst (get_city_coords down_env ''Atlantis'')
       = Inl (HTTPException 503 ''Geocoding service is unavailable.'')" by blast
  have c3: "fst (get_city_coords object_env ''Atlantis'') = Inl (KeyError (IntKey 0))"
    by code_simp
  show ?thesis by (intro conjI) (fact u, fact k0, fact c0, fact k1, fact c1, fact k2, fact c2,
    fact k3, fact c3)
qed

subsection \<open>The vegetation endpoint\<close>

lemma float_of_int_1: "float_of_int 1 = Inr (Finite False 1)"
  by code_simp

lemma float_of_int_50: "float_of_int 50 = Inr (Finite False 50)"
  by code_simp

lemma green_cover_handler:
  assumes "fst (get_city_coords e city) = Inr (lat, lon)"
    and "build_error pf = None" and "getInfo_error pf = None"
    and "median_ndvi_mean pf (greencover_collection pf (Point_buffer lon lat 5000))
           (Point_buffer lon lat 5000) = Some v"
  shows "get_green_cover_real e pf city =
           (case green_cover_response city lat lon v of
              Inl ex \<Rightarrow> Inl (on_exception ex) | Inr response \<Rightarrow> Inr response)"
  using assms by (simp add: get_green_cover_real_def stats_get_def Let_def)

lemma green_cover_float:
  "green_cover_response city lat lon (PyFloat x) = Inr (JObj [
     (''city'', JUni (title city)),
     (''location'', location lat lon),
     (''avg_coverage'',
        JStr (format_double 2 (fmul (fadd x (Finite False 1)) (Finite False 50)) @ ''%'')),
     (''avg_ndvi'', JStr (format_double 4 x)),
     (''data_source'', JStr ''Sentinel-2 Satellite'')])"
  by (simp add: green_cover_response_def float_of_int_1 float_of_int_50)

lemma coverage_float_zero:
  "format_double 2 (fmul (fadd (Finite False 0) (Finite False 1)) (Finite False 50)) = ''50.00''"
  by code_simp

lemma coverage_float_minus_one:
  "format_double 2 (fmul (fadd (Finite True 1) (Finite False 1)) (Finite False 50)) = ''0.00''"
  by code_simp

lemma coverage_float_one:
  "format_double 2 (fmul (fadd (Finite False 1) (Finite False 1)) (Finite False 50)) = ''100.00''"
  by code_simp

lemma coverage_int_zero:
  "\<exists>members. green_cover_response city lat lon (PyInt 0) = Inr (JObj members)
     \<and> map_of members ''avg_coverage'' = Some (JStr ''50.00%'')"
proof -
  have a: "py_format 2 (PyInt 50) = Inr ''50.00''" by code_simp
  have b: "py_format 4 (PyInt 0) = Inr ''0.0000''" by code_simp
  show ?thesis by (simp add: green_cover_response_def a b del: py_format.simps)
qed

lemma coverage_int_minus_one:
  "\<exists>members. green_cover_response city lat lon (PyInt (- 1)) = Inr (JObj members)
     \<and> map_of members ''avg_coverage'' = Some (JStr ''0.00%'')"
proof -
  have a: "py_format 2 (PyInt 0) = Inr ''0.00''" by code_simp
  have b: "py_format 4 (PyInt (- 1)) = Inr ''-1.0000''" by code_simp
  show ?thesis by (simp add: green_cover_response_def a b del: py_format.simps)
qed

lemma coverage_int_one:
  "\<exists>members. green_cover_response city lat lon (PyInt 1) = Inr (JObj members)
     \<and> map_of members ''avg_coverage'' = Some (JStr ''100.00%'')"
proof -
  have a: "py_format 2 (PyInt 100) = Inr ''100.00''" by code_simp
  have b: "py_format 4 (PyInt 1) = Inr ''1.0000''" by code_simp
  show ?thesis by (simp add: green_cover_response_def a b del: py_format.simps)
qed

text \<open>
  Claim C1. When the city resolves and the platform's reduction returns the float \<open>x\<close>,
  the response of \<open>/city/{city}/greencover\<close> carries as \<open>avg_coverage\<close> the value of
  \<open>(x + 1) * 50\<close> in float arithmetic, printed with two decimals and a percent sign. An
  index of 0 (the float or the integer) gives 50.00%, -1 gives 0.00% and 1 gives
  100.00%.
\<close>

theorem green_cover_percentage:
  assumes "fst (get_city_coords e city) = Inr (lat, lon)"
    and "build_error pf = None" and "getInfo_error pf = None"
    and "median_ndvi_mean pf (greencover_collection pf (Point_buffer lon lat 5000))
           (Point_buffer lon lat 5000) = Some v"
  shows "(\<forall>x. v = PyFloat x \<longrightarrow>
            (\<exists>response. get_green_cover_real e pf city = Inr response
               \<and> json_get response ''avg_coverage''
                   = Some (JStr (format_double 2
                       (fmul (fadd x (Finite False 1)) (Finite False 50)) @ ''%''))))
     \<and> (v = PyFloat (Finite False 0) \<or> v = PyInt 0 \<longrightarrow>
            (\<exists>response. get_green_cover_real e pf city = Inr response
               \<and> json_get response ''avg_coverage'' = Some (JStr ''50.00%'')))
     \<and> (v = PyFloat (Finite True 1) \<or> v = PyInt (- 1) \<longrightarrow>
            (\<exists>response. get_green_cover_real e pf city = Inr response
               \<and> json_get response ''avg_coverage'' = Some (JStr ''0.00%'')))
     \<and> (v = PyFloat (Finite False 1) \<or> v = PyInt 1 \<longrightarrow>
            (\<exists>response. get_green_cover_real e pf city = Inr response
               \<and> json_get response ''avg_coverage'' = Some (JStr ''100.00%'')))"
proof -
  note h = green_cover_handler [OF assms]
  have a: "\<forall>x. v = PyFloat x \<longrightarrow>
            (\<exists>response. get_green_cover_real e pf city = Inr response
               \<and> json_get response ''avg_coverage''
                   = Some (JStr (format_double 2
                       (fmul (fadd x (Finite False 1)) (Finite False 50)) @ ''%'')))"
    by (simp add: h green_cover_float)
  have b: "v = PyFloat (Finite False 0) \<or> v = PyInt 0 \<longrightarrow>
            (\<exists>response. get_green_cover_real e pf city = Inr response
               \<and> json_get response ''avg_coverage'' = Some (JStr ''50.00%''))"
    using coverage_int_zero [of city lat lon]
    by (auto simp: h green_cover_float coverage_float_zero simp del: fadd.simps fmul.simps)
  have c: "v = PyFloat (Finite True 1) \<or> v = PyInt (- 1) \<longrightarrow>
            (\<exists>response. get_green_cover_real e pf city = Inr response
               \<and> json_get response ''avg_coverage'' = Some (JStr ''0.00%''))"
    using coverage_int_minus_one [of city lat lon]
    by (auto simp: h green_cover_float coverage_float_minus_one simp del: fadd.simps fmul.simps)
  have d: "v = PyFloat (Finite False 1) \<or> v = PyInt 1 \<longrightarrow>
            (\<exists>response. get_green_cover_real e pf city = Inr response
               \<and> json_get response ''avg_coverage'' = Some (JStr ''100.00%''))"
    using coverage_int_one [of city lat lon]
    by (auto simp: h green_cover_float coverage_float_one simp del: fadd.simps fmul.simps)
  show ?thesis by (intro conjI) (fact a, fact b, fact c, fact d)
qed

theorem green_cover_percentage_witness:
  "fst (get_city_coords down_env ''tokyo'') = Inr (35.6762, 139.6503)
   \<and> build_error demo_platform = None \<and> getInfo_error demo_platform = None
   \<and> median_ndvi_mean demo_platform
        (greencover_collection demo_platform (Point_buffer 139.6503 35.6762 5000))
        (Point_buffer 139.6503 35.6762 5000) = Some (PyFloat (Finite False 0))
   \<and> (\<exists>response. get_green_cover_real down_env demo_platform ''tokyo'' = Inr response
         \<and> json_get response ''avg_coverage'' = Some (JStr ''50.00%''))
   \<and> build_error sparse_platform = None \<and> getInfo_error sparse_platform = None
   \<and> median_ndvi_mean sparse_platform
        (greencover_collection sparse_platform (Point_buffer 139.6503 35.6762 5000))
        (Point_buffer 139.6503 35.6762 5000) = Some (PyFloat (double_of_rat (- 0.0999)))
   \<and> (\<exists>response. get_green_cover_real down_env sparse_platform ''tokyo'' = Inr response
         \<and> json_get response ''avg_coverage'' = Some (JStr ''45.01%''))"
proof -
  have h1: "fst (get_city_coords down_env ''tokyo'') = Inr (35.6762, 139.6503)" by code_simp
  have h2: "build_error demo_platform = None" by (simp add: demo_platform_def)
  have h3: "getInfo_error demo_platform = None" by (simp add: demo_platform_def)
  have h4: "median_ndvi_mean demo_platform
        (greencover_collection demo_platform (Point_buffer 139.6503 35.6762 5000))
        (Point_buffer 139.6503 35.6762 5000) = Some (PyFloat (Finite False 0))"
    by (simp add: demo_platform_def)
  have g2: "build_error sparse_platform = None" by (simp add: sparse_platform_def)
  have g3: "getInfo_error sparse_platform = None" by (simp add: sparse_platform_def)
  have g4: "median_ndvi_mean sparse_platform
        (greencover_collection sparse_platform (Point_buffer 139.6503 35.6762 5000))
        (Point_buffer 139.6503 35.6762 5000) = Some (PyFloat (double_of_rat (- 0.0999)))"
    by (simp add: sparse_platform_def)
  have f: "format_double 2
      (fmul (fadd (double_of_rat (- 0.0999)) (Finite False 1)) (Finite False 50)) = ''45.01''"
    by code_simp
  from green_cover_percentage [OF h1 h2 h3 h4]
  have r: "\<exists>response. get_green_cover_real down_env demo_platform ''tokyo'' = Inr response
         \<and> json_get response ''avg_coverage'' = Some (JStr ''50.00%'')"
    by blast
  from green_cover_percentage [OF h1 g2 g3 g4]
  have "\<exists>response. get_green_cover_real down_env sparse_platform ''tokyo'' = Inr response
         \<and> json_get response ''avg_coverage''
             = Some (JStr (format_double 2
                 (fmul (fadd (double_of_rat (- 0.0999)) (Finite False 1)) (Finite False 50))
                   @ ''%''))"
    by blast
  then have s: "\<exists>response. get_green_cover_real down_env sparse_platform ''tokyo'' = Inr response
         \<and> json_get response ''avg_coverage'' = Some (JStr ''45.01%'')"
    unfolding f by simp
  show ?thesis by (intro conjI) (fact h1, fact h2, fact h3, fact h4, fact r, fact g2, fact g3,
    fact g4, fact s)
qed

text \<open>
  Claim C5. When the city resolves and the reduction yields no index, the endpoint
  raises HTTP 404 with the detail \<open>Could not calculate NDVI for this area.\<close>, which
  contains \<open>could not calculate\<close> up to the case of its first letter; the result is the
  error alone, no payload.
\<close>

theorem green_cover_no_value:
  assumes "fst (get_city_coords e city) = Inr (lat, lon)"
    and "build_error pf = None" and "getInfo_error pf = None"
    and "median_ndvi_mean pf (greencover_collection pf (Point_buffer lon lat 5000))
           (Point_buffer lon lat 5000) = None"
  shows "get_green_cover_real e pf city
           = Inl (HTTPException 404 ''Could not calculate NDVI for this area.'')
         \<and> contains (lower ''Could not calculate NDVI for this area.'') ''could not calculate''"
proof -
  have a: "contains (lower ''Could not calculate NDVI for this area.'') ''could not calculate''"
    by code_simp
  have b: "get_green_cover_real e pf city
           = Inl (HTTPException 404 ''Could not calculate NDVI for this area.'')"
    using assms by (simp add: get_green_cover_real_def stats_get_def Let_def on_exception_def)
  show ?thesis by (intro conjI) (fact b, fact a)
qed

theorem green_cover_no_value_witness:
  "fst (get_city_coords down_env ''Mumbai'') = Inr (19.0760, 72.8777)
   \<and> build_error bare_platform = None \<and> getInfo_error bare_platform = None
   \<and> median_ndvi_mean bare_platform
        (greencover_collection bare_platform (Point_buffer 72.8777 19.0760 5000))
        (Point_buffer 72.8777 19.0760 5000) = None
   \<and> get_green_cover_real down_env bare_platform ''Mumbai''
        = Inl (HTTPException 404 ''Could not calculate NDVI for this area.'')"
proof -
  have h1: "fst (get_city_coords down_env ''Mumbai'') = Inr (19.0760, 72.8777)" by code_simp
  have h2: "build_error bare_platform = None" by (simp add: bare_platform_def)
  have h3: "getInfo_error bare_platform = None" by (simp add: bare_platform_def)
  have h4: "median_ndvi_mean bare_platform
        (greencover_collection bare_platform (Point_buffer 72.8777 19.0760 5000))
        (Point_buffer 72.8777 19.0760 5000) = None" by (simp add: bare_platform_def)
  from green_cover_no_value [OF h1 h2 h3 h4]
  have r: "get_green_cover_real down_env bare_platform ''Mumbai''
        = Inl (HTTPException 404 ''Could not calculate NDVI for this area.'')" by (rule conjunct1)
  show ?thesis by (intro conjI) (fact h1, fact h2, fact h3, fact h4, fact r)
qed


subsection \<open>The heat endpoint\<close>

lemma scale_thermal_pixels:
  "snd (scale_thermal img) area
     = map (\<lambda>x. x * 0.00341802 + 149.0 - 273.15) (pixels img ''ST_B10'' area)"
  by (simp add: scale_thermal_def select_def multiply_def add_def subtract_def Let_def comp_def)

text \<open>
  Claim C2. \<open>scale_thermal\<close> converts every pixel value \<open>x\<close> of band \<open>ST_B10\<close> to
  \<open>x * 0.00341802 + 149.0 - 273.15\<close>; a raw value of 100 is converted to a value within
  0.0005 of -123.808, which is -123.808 to the three decimals of the specification.
\<close>

theorem thermal_conversion:
  "snd (scale_thermal img) area
     = map (\<lambda>x. x * 0.00341802 + 149.0 - 273.15) (pixels img ''ST_B10'' area)
   \<and> (pixels img ''ST_B10'' area = [100] \<longrightarrow>
        (\<exists>y. snd (scale_thermal img) area = [y] \<and> \<bar>y - (- 123.808)\<bar> < 0.0005))"
proof -
  have b: "pixels img ''ST_B10'' area = [100] \<longrightarrow>
        (\<exists>y. snd (scale_thermal img) area = [y] \<and> \<bar>y - (- 123.808)\<bar> < 0.0005)"
    by (simp add: scale_thermal_pixels)
  show ?thesis by (intro conjI) (fact scale_thermal_pixels, fact b)
qed

theorem thermal_conversion_witness:
  "pixels landsat_march ''ST_B10'' tokyo_area = [100]
   \<and> (\<exists>y. snd (scale_thermal landsat_march) tokyo_area = [y] \<and> \<bar>y - (- 123.808)\<bar> < 0.0005)"
proof -
  have h: "pixels landsat_march ''ST_B10'' tokyo_area = [100]" by (simp add: landsat_march_def)
  from thermal_conversion [of landsat_march tokyo_area] h
  have r: "\<exists>y. snd (scale_thermal landsat_march) tokyo_area = [y] \<and> \<bar>y - (- 123.808)\<bar> < 0.0005"
    by blast
  show ?thesis by (intro conjI) (fact h, fact r)
qed

lemma date_start: "date_millis ''2023-01-01'' = 1672531200000"
  by code_simp

lemma date_stop: "date_millis ''2023-12-31'' = 1703980800000"
  by code_simp

lemma ee_first_Nil: "ee_first (ee_sort key asc []) = None"
  by (simp add: ee_first_def ee_sort_def)

lemma bare_collection: "heatmap_collection bare_platform area = []"
  by (simp add: heatmap_collection_def filter_date_def filter_lt_def filterBounds_def
        bare_platform_def)

lemma masked_collection: "heatmap_collection masked_platform area = [landsat_masked]"
  by (simp add: heatmap_collection_def filter_date_def filter_lt_def filterBounds_def
        date_start date_stop masked_platform_def landsat_masked_def)

lemma failing_collection: "heatmap_collection failing_platform area = [landsat_masked]"
  by (simp add: heatmap_collection_def filter_date_def filter_lt_def filterBounds_def
        date_start date_stop failing_platform_def landsat_masked_def)

lemma masked_latest: "latest_image masked_platform area = Some landsat_masked"
  by (simp add: latest_image_def masked_collection ee_sort_def ee_first_def)

lemma failing_latest: "latest_image failing_platform area = Some landsat_masked"
  by (simp add: latest_image_def failing_collection ee_sort_def ee_first_def)

lemma masked_stats:
  "stats_get (getInfo (reduceRegion (rename (scale_thermal landsat_masked) ''LST_Celsius'') area))
     ''LST_Celsius'' = None"
  by (simp add: stats_get_def getInfo_def reduceRegion_def rename_def scale_thermal_def
        subtract_def add_def multiply_def select_def mean_def landsat_masked_def Let_def)

text \<open>
  Claim C6, as the code behaves. With the city resolved: an exception of the platform,
  raised while the query is built or by \<open>getInfo()\<close>, is answered with HTTP 500 and the
  platform's message; an empty reduction over the latest image is answered with
  HTTP 404. When no image passes the region, cloud-cover and date filters, the guard of
  line 125 does not fire and the answer is HTTP 500 with the message of the platform's
  error, not the 404 that the guard was written to give.
\<close>

theorem heat_map_failures:
  assumes "fst (get_city_coords e city) = Inr (lat, lon)"
  shows "(build_error pf = None \<and> heatmap_collection pf (Point_buffer lon lat 5000) = []
            \<longrightarrow> get_heat_map_real e pf city
                  = Inl (HTTPException 500 (''An Earth Engine error occurred: ''
                      @ (case getInfo_error pf of Some msg \<Rightarrow> msg
                         | None \<Rightarrow> null_image_error pf))))
     \<and> (\<forall>img. build_error pf = None
            \<and> latest_image pf (Point_buffer lon lat 5000) = Some img
            \<and> getInfo_error pf = None
            \<and> stats_get (getInfo (reduceRegion (rename (scale_thermal img) ''LST_Celsius'')
                  (Point_buffer lon lat 5000))) ''LST_Celsius'' = None
            \<longrightarrow> get_heat_map_real e pf city
                  = Inl (HTTPException 404 ''Could not calculate temperature.''))
     \<and> (\<forall>msg. build_error pf = Some msg
            \<longrightarrow> get_heat_map_real e pf city
                  = Inl (HTTPException 500 (''An Earth Engine error occurred: '' @ msg)))
     \<and> (\<forall>img msg. build_error pf = None
            \<and> latest_image pf (Point_buffer lon lat 5000) = Some img
            \<and> getInfo_error pf = Some msg
            \<longrightarrow> get_heat_map_real e pf city
                  = Inl (HTTPException 500 (''An Earth Engine error occurred: '' @ msg)))"
proof (intro conjI allI impI)
  assume "build_error pf = None \<and> heatmap_collection pf (Point_buffer lon lat 5000) = []"
  then show "get_heat_map_real e pf city
                  = Inl (HTTPException 500 (''An Earth Engine error occurred: ''
                      @ (case getInfo_error pf of Some msg \<Rightarrow> msg
                         | None \<Rightarrow> null_image_error pf)))"
    using assms
    by (simp add: get_heat_map_real_def latest_image_def ee_first_Nil on_exception_def
          client_def split: option.splits)
next
  fix img
  assume "build_error pf = None
            \<and> latest_image pf (Point_buffer lon lat 5000) = Some img
            \<and> getInfo_error pf = None
            \<and> stats_get (getInfo (reduceRegion (rename (scale_thermal img) ''LST_Celsius'')
                  (Point_buffer lon lat 5000))) ''LST_Celsius'' = None"
  then show "get_heat_map_real e pf city
                  = Inl (HTTPException 404 ''Could not calculate temperature.'')"
    using assms by (simp add: get_heat_map_real_def on_exception_def client_def Let_def)
next
  fix msg
  assume "build_error pf = Some msg"
  then show "get_heat_map_real e pf city
                  = Inl (HTTPException 500 (''An Earth Engine error occurred: '' @ msg))"
    using assms by (simp add: get_heat_map_real_def on_exception_def)
next
  fix img msg
  assume "build_error pf = None
            \<and> latest_image pf (Point_buffer lon lat 5000) = Some img
            \<and> getInfo_error pf = Some msg"
  then show "get_heat_map_real e pf city
                  = Inl (HTTPException 500 (''An Earth Engine error occurred: '' @ msg))"
    using assms by (simp add: get_heat_map_real_def on_exception_def client_def Let_def)
qed

theorem heat_map_failures_witness:
  "fst (get_city_coords down_env ''tokyo'') = Inr (35.6762, 139.6503)
   \<and> build_error bare_platform = None
   \<and> heatmap_collection bare_platform (Point_buffer 139.6503 35.6762 5000) = []
   \<and> get_heat_map_real down_env bare_platform ''tokyo''
       = Inl (HTTPException 500
           (''An Earth Engine error occurred: '' @ ''Image.select: Parameter input is required.''))
   \<and> get_heat_map_real down_env masked_platform ''tokyo''
       = Inl (HTTPException 404 ''Could not calculate temperature.'')
   \<and> get_heat_map_real down_env uninitialised_platform ''tokyo''
       = Inl (HTTPException 500
           (''An Earth Engine error occurred: '' @ ''Earth Engine client library not initialized.''))
   \<and> get_heat_map_real down_env failing_platform ''tokyo''
       = Inl (HTTPException 500 (''An Earth Engine error occurred: '' @ ''Computation timed out.''))"
proof -
  have h: "fst (get_city_coords down_env ''tokyo'') = Inr (35.6762, 139.6503)" by code_simp
  have b0: "build_error bare_platform = None" by (simp add: bare_platform_def)
  have n0: "(case getInfo_error bare_platform of Some msg \<Rightarrow> msg
             | None \<Rightarrow> null_image_error bare_platform)
      = ''Image.select: Parameter input is required.''"
    by (simp add: bare_platform_def)
  have b1: "build_error masked_platform = None \<and> getInfo_error masked_platform = None"
    by (simp add: masked_platform_def)
  have b2: "build_error uninitialised_platform
      = Some ''Earth Engine client library not initialized.''"
    by (simp add: uninitialised_platform_def)
  have b3: "build_error failing_platform = None
      \<and> getInfo_error failing_platform = Some ''Computation timed out.''"
    by (simp add: failing_platform_def)
  from heat_map_failures [OF h, of bare_platform] b0 bare_collection
  have "get_heat_map_real down_env bare_platform ''tokyo''
       = Inl (HTTPException 500 (''An Earth Engine error occurred: ''
           @ (case getInfo_error bare_platform of Some msg \<Rightarrow> msg
              | None \<Rightarrow> null_image_error bare_platform)))"
    by blast
  then have r0: "get_heat_map_real down_env bare_platform ''tokyo''
       = Inl (HTTPException 500
           (''An Earth Engine error occurred: '' @ ''Image.select: Parameter input is required.''))"
    by (simp only: n0)
  from heat_map_failures [OF h, of masked_platform] b1 masked_latest masked_stats
  have r1: "get_heat_map_real down_env masked_platform ''tokyo''
       = Inl (HTTPException 404 ''Could not calculate temperature.'')"
    by blast
  from heat_map_failures [OF h, of uninitialised_platform] b2
  have r2: "get_heat_map_real down_env uninitialised_platform ''tokyo''
       = Inl (HTTPException 500
           (''An Earth Engine error occurred: '' @ ''Earth Engine client library not initialized.''))"
    by blast
  from heat_map_failures [OF h, of failing_platform] b3 failing_latest
  have r3: "get_heat_map_real down_env failing_platform ''tokyo''
       = Inl (HTTPException 500 (''An Earth Engine error occurred: '' @ ''Computation timed out.''))"
    by blast
  show ?thesis by (intro conjI) (fact h, fact b0, fact bare_collection, fact r0, fact r1,
    fact r2, fact r3)
qed

lemma sort_key_nonempty: "xs \<noteq> [] \<Longrightarrow> sort_key key xs \<noteq> []"
  by (metis length_0_conv length_sort)

lemma sorted_le_last: "sorted ys \<Longrightarrow> (y::'b::linorder) \<in> set ys \<Longrightarrow> y \<le> last ys"
  by (induction ys) auto

lemma sort_key_last_max:
  assumes "xs \<noteq> []" and "j \<in> set xs"
  shows "key j \<le> key (last (sort_key key xs))"
proof -
  have ne: "sort_key key xs \<noteq> []" using assms(1) by (rule sort_key_nonempty)
  have "sorted (map key (sort_key key xs))" by (rule sorted_sort_key)
  moreover have "key j \<in> set (map key (sort_key key xs))" using assms(2) by simp
  ultimately have "key j \<le> last (map key (sort_key key xs))" by (rule sorted_le_last)
  with ne show ?thesis by (simp add: last_map)
qed

lemma first_of_descending:
  assumes "xs \<noteq> []"
  shows "\<exists>img. ee_first (ee_sort key False xs) = Some img \<and> img \<in> set xs
           \<and> (\<forall>j \<in> set xs. key j \<le> key img)"
proof -
  let ?ys = "sort_key key xs"
  have ne: "?ys \<noteq> []" using assms by (rule sort_key_nonempty)
  then have r: "rev ?ys = last ?ys # rev (butlast ?ys)"
    by (cases ?ys rule: rev_cases) simp_all
  have f: "ee_first (ee_sort key False xs) = Some (last ?ys)"
    by (simp only: ee_first_def ee_sort_def if_False r list.case)
  have "last ?ys \<in> set ?ys" using ne by (rule last_in_set)
  then have m: "last ?ys \<in> set xs" by simp
  have "\<forall>j \<in> set xs. key j \<le> key (last ?ys)"
    using sort_key_last_max [OF assms] by blast
  with f m show ?thesis by blast
qed

text \<open>
  Claim C7. For a non-empty filtered collection, sorting by \<open>system:time_start\<close> in
  descending order and taking the first element yields one image of the collection,
  and no image of the collection is more recent.
\<close>

theorem latest_image_most_recent:
  assumes "heatmap_collection pf area \<noteq> []"
  shows "\<exists>img. latest_image pf area = Some img \<and> img \<in> set (heatmap_collection pf area)
           \<and> (\<forall>j \<in> set (heatmap_collection pf area). time_start j \<le> time_start img)"
  unfolding latest_image_def by (rule first_of_descending [OF assms])

theorem latest_image_most_recent_witness:
  "heatmap_collection demo_platform tokyo_area \<noteq> []
   \<and> (\<exists>img. latest_image demo_platform tokyo_area = Some img
         \<and> img \<in> set (heatmap_collection demo_platform tokyo_area)
         \<and> time_start img = 1689000000000)"
proof -
  have t: "map time_start (heatmap_collection demo_platform tokyo_area)
     = [1678000000000, 1689000000000]" by code_simp
  then have h: "heatmap_collection demo_platform tokyo_area \<noteq> []" by auto
  from latest_image_most_recent [OF h] obtain img where
    l: "latest_image demo_platform tokyo_area = Some img"
    and m: "img \<in> set (heatmap_collection demo_platform tokyo_area)"
    and g: "\<forall>j \<in> set (heatmap_collection demo_platform tokyo_area). time_start j \<le> time_start img"
    by blast
  from m have "time_start img \<in> set (map time_start (heatmap_collection demo_platform tokyo_area))"
    by simp
  with t have c: "time_start img = 1678000000000 \<or> time_start img = 1689000000000" by simp
  from t have "(1689000000000::int) \<in> time_start ` set (heatmap_collection demo_platform tokyo_area)"
    by (metis list.set_intros(1,2) list.set_map)
  with g have "1689000000000 \<le> time_start img" by auto
  with c have "time_start img = 1689000000000" by simp
  with h l m show ?thesis by blast
qed

subsection \<open>The filter window of the two pipelines\<close>

text \<open>
  Claim C8. The vegetation and the heat pipeline keep exactly the images of their
  catalogue that intersect the region, whose cloud-cover property is below 20, and that
  were acquired from 2023-01-01 (1672531200000 ms, inclusive) to 2023-12-31
  (1703980800000 ms, exclusive): the same threshold and the same window in both.
\<close>

theorem same_filter_window:
  "set (greencover_collection pf area)
     = {i \<in> set (catalog pf ''COPERNICUS/S2_SR_HARMONIZED''). footprint i area
          \<and> (\<exists>c. properties i ''CLOUDY_PIXEL_PERCENTAGE'' = Some c \<and> c < 20)
          \<and> 1672531200000 \<le> time_start i \<and> time_start i < 1703980800000}
   \<and> set (heatmap_collection pf area)
     = {i \<in> set (catalog pf ''LANDSAT/LC09/C02/T1_L2''). footprint i area
          \<and> (\<exists>c. properties i ''CLOUD_COVER'' = Some c \<and> c < 20)
          \<and> 1672531200000 \<le> time_start i \<and> time_start i < 1703980800000}"
  by (auto simp: greencover_collection_def heatmap_collection_def filter_date_def filter_lt_def
        filterBounds_def date_start date_stop split: option.splits)

theorem same_filter_window_witness:
  "sentinel_may \<in> set (greencover_collection demo_platform tokyo_area)
   \<and> sentinel_hazy \<notin> set (greencover_collection demo_platform tokyo_area)
   \<and> landsat_july \<in> set (heatmap_collection demo_platform tokyo_area)
   \<and> landsat_cloudy \<notin> set (heatmap_collection demo_platform tokyo_area)
   \<and> landsat_2024 \<notin> set (heatmap_collection demo_platform tokyo_area)"
proof -
  have g: "set (greencover_collection demo_platform tokyo_area)
     = {i \<in> set (catalog demo_platform ''COPERNICUS/S2_SR_HARMONIZED''). footprint i tokyo_area
          \<and> (\<exists>c. properties i ''CLOUDY_PIXEL_PERCENTAGE'' = Some c \<and> c < 20)
          \<and> 1672531200000 \<le> time_start i \<and> time_start i < 1703980800000}"
    using same_filter_window [of demo_platform tokyo_area] by (rule conjunct1)
  have h: "set (heatmap_collection demo_platform tokyo_area)
     = {i \<in> set (catalog demo_platform ''LANDSAT/LC09/C02/T1_L2''). footprint i tokyo_area
          \<and> (\<exists>c. properties i ''CLOUD_COVER'' = Some c \<and> c < 20)
          \<and> 1672531200000 \<le> time_start i \<and> time_start i < 1703980800000}"
    using same_filter_window [of demo_platform tokyo_area] by (rule conjunct2)
  have a1: "sentinel_may \<in> set (greencover_collection demo_platform tokyo_area)"
    unfolding g by (simp add: demo_platform_def demo_catalog_def sentinel_may_def)
  have a2: "sentinel_hazy \<notin> set (greencover_collection demo_platform tokyo_area)"
    unfolding g by (simp add: sentinel_hazy_def)
  have a3: "landsat_july \<in> set (heatmap_collection demo_platform tokyo_area)"
    unfolding h by (simp add: demo_platform_def demo_catalog_def landsat_july_def)
  have a4: "landsat_cloudy \<notin> set (heatmap_collection demo_platform tokyo_area)"
    unfolding h by (simp add: landsat_cloudy_def)
  have a5: "landsat_2024 \<notin> set (heatmap_collection demo_platform tokyo_area)"
    unfolding h by (simp add: landsat_2024_def)
  show ?thesis by (intro conjI) (fact a1, fact a2, fact a3, fact a4, fact a5)
qed

subsection \<open>The simulate endpoint\<close>

text \<open>
  Two calls of \<open>/city/{city}/simulate\<close> in a row with the same parameters return the same
  payload, and no two calls with the same parameters return different payloads,
  whatever the state of the random generator.
\<close>

theorem simulation_random_counterexample:
  "fst (get_simulation rng_a ''tokyo'' ''trees'' ''large'')
     = fst (get_simulation (snd (get_simulation rng_a ''tokyo'' ''trees'' ''large''))
         ''tokyo'' ''trees'' ''large'')
   \<and> \<not> (\<exists>g g' city intervention scale.
          fst (get_simulation g city intervention scale)
            \<noteq> fst (get_simulation g' city intervention scale))"
  by (simp add: get_simulation_def)

text \<open>
  Claim C9, as amended. The simulate endpoint is deterministic: every call returns the
  same fixed payload, whatever the city, the intervention, the scale and the state of
  the random generator, and it leaves the generator as it found it.
\<close>

theorem simulation_fixed:
  "fst (get_simulation g city intervention scale)
     = fst (get_simulation g' city' intervention' scale')
   \<and> snd (get_simulation g city intervention scale) = g"
  by (simp add: get_simulation_def)

text \<open>
  Claim C10. The simulate endpoint succeeds for every city, intervention and scale.
  Every other endpoint calls the resolver first: when the resolver fails for the city,
  the four simulated endpoints fail with the resolver's exception and the two satellite
  endpoints with what their handlers make of it (an \<open>HTTPException\<close> unchanged, anything
  else as HTTP 500).
\<close>

theorem simulate_never_fails:
  "(\<exists>payload. fst (get_simulation g city intervention scale) = Inr payload)
   \<and> (\<forall>ex. fst (get_city_coords e city) = Inl ex \<longrightarrow>
        get_green_cover_real e pf city = Inl (on_exception ex)
      \<and> get_heat_map_real e pf city = Inl (on_exception ex)
      \<and> fst (get_city_overview e g city) = Inl ex
      \<and> fst (get_flood_risk e g city) = Inl ex
      \<and> fst (get_air_quality e g city) = Inl ex
      \<and> fst (get_report_card e g city) = Inl ex)"
  by (simp add: get_simulation_def get_green_cover_real_def get_heat_map_real_def
        get_city_overview_def get_flood_risk_def get_air_quality_def get_report_card_def)

theorem simulate_never_fails_witness:
  "fst (get_city_coords keyless_env ''Atlantis'')
     = Inl (HTTPException 500 ''OpenWeatherMap API key is not configured.'')
   \<and> (\<exists>payload. fst (get_simulation rng_a ''Atlantis'' ''trees'' ''large'') = Inr payload)
   \<and> get_green_cover_real keyless_env demo_platform ''Atlantis''
       = Inl (HTTPException 500 ''OpenWeatherMap API key is not configured.'')
   \<and> get_heat_map_real keyless_env demo_platform ''Atlantis''
       = Inl (HTTPException 500 ''OpenWeatherMap API key is not configured.'')
   \<and> fst (get_city_overview keyless_env rng_a ''Atlantis'')
       = Inl (HTTPException 500 ''OpenWeatherMap API key is not configured.'')
   \<and> fst (get_flood_risk keyless_env rng_a ''Atlantis'')
       = Inl (HTTPException 500 ''OpenWeatherMap API key is not configured.'')
   \<and> fst (get_air_quality keyless_env rng_a ''Atlantis'')
       = Inl (HTTPException 500 ''OpenWeatherMap API key is not configured.'')
   \<and> fst (get_report_card keyless_env rng_a ''Atlantis'')
       = Inl (HTTPException 500 ''OpenWeatherMap API key is not configured.'')"
proof -
  let ?ex = "HTTPException 500 ''OpenWeatherMap API key is not configured.''"
  have h: "fst (get_city_coords keyless_env ''Atlantis'') = Inl ?ex" by code_simp
  have o: "on_exception ?ex = ?ex" by (simp add: on_exception_def)
  note t = simulate_never_fails [of rng_a "''Atlantis''" "''trees''" "''large''" keyless_env
      demo_platform]
  from t have s: "\<exists>payload. fst (get_simulation rng_a ''Atlantis'' ''trees'' ''large'') = Inr payload"
    by (rule conjunct1)
  from t h have r: "get_green_cover_real keyless_env demo_platform ''Atlantis'' = Inl (on_exception ?ex)
      \<and> get_heat_map_real keyless_env demo_platform ''Atlantis'' = Inl (on_exception ?ex)
      \<and> fst (get_city_overview keyless_env rng_a ''Atlantis'') = Inl ?ex
      \<and> fst (get_flood_risk keyless_env rng_a ''Atlantis'') = Inl ?ex
      \<and> fst (get_air_quality keyless_env rng_a ''Atlantis'') = Inl ?ex
      \<and> fst (get_report_card keyless_env rng_a ''Atlantis'') = Inl ?ex"
    by blast
  from h s r show ?thesis unfolding o by blast
qed

end
